theory Spec2Isabelle
  imports Main "HOL-Library.AList"
begin

section \<open>The version engine of bumpversion 0.3.7\<close>

text \<open>
  A shallow embedding of the classes \<^verbatim>\<open>VersionPart\<close> and \<^verbatim>\<open>Version\<close> of
  \<^verbatim>\<open>bumpversion/__init__.py\<close>. Conventions of the embedding:

  \<^item> A Python text string is a \<open>string\<close>; the characters are the code points below 256,
    among which the decimal digits of \<^verbatim>\<open>\d\<close> are exactly \<open>0\<close> to \<open>9\<close>.
  \<^item> A method that mutates \<^verbatim>\<open>self\<close> takes the object and returns it; a method that
    can raise returns \<open>error + 'a\<close>, with \<open>Inl\<close> for the exception, next to the object
    as it stands when the exception leaves the method.
  \<^item> The source is written for Python 2 and for Python 3, and the interpreter is a
    parameter of the methods that depend on it. The handlers of \<^verbatim>\<open>_serialize\<close> and
    \<^verbatim>\<open>_choose_serialize_format\<close> read \<^verbatim>\<open>e.message\<close>, an attribute that exceptions
    have in Python 2 only: there the handlers run to their end; in Python 3 the
    \<^verbatim>\<open>assert hasattr(e, 'message')\<close> of \<^verbatim>\<open>_serialize\<close> raises AssertionError and
    \<^verbatim>\<open>warnings.warn(e.message)\<close> in \<^verbatim>\<open>_choose_serialize_format\<close> raises
    AttributeError, and these leave the methods. Assertions are on.
  \<^item> A format string is held as what \<^verbatim>\<open>string.Formatter().parse\<close> yields for it: the
    list of its pairs of literal text and field name, the field name being \<open>None\<close> for
    literal text that no replacement field follows. Field names are plain keyword names,
    with no conversion and an empty format specification.
  \<^item> The compiled pattern is held as its search function: for a string, \<open>None\<close> when
    the pattern matches nowhere, otherwise the items of the match's
    \<^verbatim>\<open>groupdict()\<close>, in which a named group that took no part in the match has the
    value \<open>None\<close>.
  \<^item> The dictionary \<^verbatim>\<open>_parsed\<close> is an association list in the order its
    \<^verbatim>\<open>items()\<close> are iterated: the loop of \<^verbatim>\<open>_serialize\<close> depends on that order.
\<close>

subsection \<open>Exceptions\<close>

datatype key_error_message =
  Did_not_find_key string
| Did_not_find_suitable_serialization_format

datatype error =
  AssertionError
| AttributeError
| IndexError
| KeyError key_error_message
| IncompleteVersionRepresenationException

subsection \<open>The interpreter\<close>

datatype python = Python2 | Python3

text \<open>\<^verbatim>\<open>hasattr(e, 'message')\<close> for an exception \<^verbatim>\<open>e\<close>.\<close>

definition exceptions_have_message :: "python \<Rightarrow> bool" where
  "exceptions_have_message py = (py = Python2)"

subsection \<open>Digits and integers\<close>

definition is_digit :: "char \<Rightarrow> bool" where
  "is_digit c = (48 \<le> (of_char c :: nat) \<and> (of_char c :: nat) \<le> 57)"

text \<open>\<^verbatim>\<open>int(numeric_version)\<close> on a run of decimal digits.\<close>

definition int_of_digits :: "string \<Rightarrow> nat" where
  "int_of_digits ds = foldl (\<lambda>acc c. 10 * acc + (of_char c - 48)) 0 ds"

text \<open>\<^verbatim>\<open>str(n)\<close> on a non-negative integer: its decimal digits, no leading zero.\<close>

fun str_of_nat :: "nat \<Rightarrow> string" where
  "str_of_nat n =
     (if n < 10 then [char_of (48 + n)]
      else str_of_nat (n div 10) @ [char_of (48 + n mod 10)])"

declare str_of_nat.simps [simp del]

subsection \<open>VersionPart\<close>

text \<open>
  \<^verbatim>\<open>self._value\<close> is the text a group captured, or \<open>None\<close> for a group that took no
  part in the match.
\<close>

datatype VersionPart = VersionPart (self_value: "string option")

text \<open>The property \<^verbatim>\<open>value\<close>: \<^verbatim>\<open>return self._value or "0"\<close>.\<close>

definition VersionPart_value :: "VersionPart \<Rightarrow> string" where
  "VersionPart_value self =
     (case self_value self of
        None \<Rightarrow> ''0''
      | Some s \<Rightarrow> if s = [] then ''0'' else s)"

text \<open>
  \<^verbatim>\<open>FIRST_NUMERIC = re.compile('([^\d]*)(\d+)(.*)')\<close> and
  \<^verbatim>\<open>FIRST_NUMERIC.search(s).groups()\<close>. The first group is greedy over the characters
  that are no digit, so the search matches at position 0 exactly when \<open>s\<close> holds a digit;
  the second group takes the whole run of digits; the third group stops at the first
  line feed, which \<^verbatim>\<open>.\<close> does not match. \<open>None\<close> is the failed search.
\<close>

definition FIRST_NUMERIC_search :: "string \<Rightarrow> (string \<times> string \<times> string) option" where
  "FIRST_NUMERIC_search s =
     (let part_prefix = takeWhile (\<lambda>c. \<not> is_digit c) s;
          rest = dropWhile (\<lambda>c. \<not> is_digit c) s
      in if rest = [] then None
         else Some (part_prefix, takeWhile is_digit rest,
                    takeWhile (\<lambda>c. c \<noteq> CHR 0x0A) (dropWhile is_digit rest)))"

text \<open>
  \<^verbatim>\<open>bump\<close>: calling \<^verbatim>\<open>.groups()\<close> on the \<^verbatim>\<open>None\<close> of a failed search raises
  AttributeError.
\<close>

definition VersionPart_bump :: "VersionPart \<Rightarrow> error + VersionPart" where
  "VersionPart_bump self =
     (case FIRST_NUMERIC_search (VersionPart_value self) of
        None \<Rightarrow> Inl AttributeError
      | Some (part_prefix, numeric_version, part_suffix) \<Rightarrow>
          (let bumped_numeric = str_of_nat (int_of_digits numeric_version + 1)
           in Inr (VersionPart (Some (part_prefix @ bumped_numeric @ part_suffix)))))"

definition VersionPart_is_optional :: "VersionPart \<Rightarrow> bool" where
  "VersionPart_is_optional self = (VersionPart_value self = ''0'')"

text \<open>\<^verbatim>\<open>__format__\<close> ignores the format specification.\<close>

definition VersionPart_format :: "VersionPart \<Rightarrow> string" where
  "VersionPart_format self = VersionPart_value self"

definition VersionPart_zero :: "VersionPart \<Rightarrow> VersionPart" where
  "VersionPart_zero self = VersionPart (Some ''0'')"

subsection \<open>Version\<close>

type_synonym serialize_format = "(string \<times> string option) list"

record Version =
  self_parse_regex :: "string \<Rightarrow> (string \<times> string option) list option"
  self_serialize_formats :: "serialize_format list"
  self_context :: "string \<rightharpoonup> string"
  self_parsed :: "(string \<times> VersionPart) list"

text \<open>\<^verbatim>\<open>_labels_for_format\<close>: the field name of every pair, \<open>None\<close> included.\<close>

definition labels_for_format :: "serialize_format \<Rightarrow> string option list" where
  "labels_for_format serialize_format = map snd serialize_format"

text \<open>\<^verbatim>\<open>order\<close>: \<^verbatim>\<open>self.serialize_formats[0]\<close> raises IndexError on the empty list.\<close>

definition Version_order :: "Version \<Rightarrow> error + string option list" where
  "Version_order self =
     (case self_serialize_formats self of
        [] \<Rightarrow> Inl IndexError
      | first_format # _ \<Rightarrow> Inr (labels_for_format first_format))"

text \<open>
  \<^verbatim>\<open>parse\<close>: \<^verbatim>\<open>_parsed\<close> is emptied, and when the search matched every item of the
  group dictionary is stored as a VersionPart under its key.
\<close>

definition Version_parse :: "string \<Rightarrow> Version \<Rightarrow> Version" where
  "Version_parse version_string self =
     (case self_parse_regex self version_string of
        None \<Rightarrow> self\<lparr>self_parsed := []\<rparr>
      | Some items \<Rightarrow>
          self\<lparr>self_parsed :=
            fold (\<lambda>(key, v) parsed. AList.update key (VersionPart v) parsed) items []\<rparr>)"

text \<open>
  The values a format string is filled from are context entries, formatted as they
  are, and version parts, formatted by \<^verbatim>\<open>__format__\<close>.
\<close>

datatype format_value = Str string | Part VersionPart

fun format_of :: "format_value \<Rightarrow> string" where
  "format_of (Str s) = s"
| "format_of (Part p) = VersionPart_format p"

text \<open>
  \<^verbatim>\<open>serialize_format.format(**values)\<close>: the literal texts and the formatted values
  in order; \<open>Inl k\<close> is the KeyError of the leftmost field name \<open>k\<close> that is no key of
  \<open>values\<close>.
\<close>

fun str_format :: "serialize_format \<Rightarrow> (string \<rightharpoonup> format_value) \<Rightarrow> string + string" where
  "str_format [] values = Inr []"
| "str_format ((literal_text, None) # pairs) values =
     (case str_format pairs values of
        Inl k \<Rightarrow> Inl k
      | Inr s \<Rightarrow> Inr (literal_text @ s))"
| "str_format ((literal_text, Some field_name) # pairs) values =
     (case values field_name of
        None \<Rightarrow> Inl field_name
      | Some v \<Rightarrow>
          (case str_format pairs values of
             Inl k \<Rightarrow> Inl k
           | Inr s \<Rightarrow> Inr (literal_text @ format_of v @ s)))"

text \<open>
  \<^verbatim>\<open>values = self.context.copy(); values.update(self._parsed)\<close>: a new dictionary in
  which a version part replaces the context entry of the same name.
\<close>

definition serialize_values :: "Version \<Rightarrow> (string \<rightharpoonup> format_value)" where
  "serialize_values self =
     (\<lambda>k. map_option Str (self_context self k)) ++
     map_of (map (\<lambda>(k, p). (k, Part p)) (self_parsed self))"

text \<open>
  The loop of \<^verbatim>\<open>_serialize\<close> over \<^verbatim>\<open>self._parsed.items()\<close> that builds
  \<^verbatim>\<open>keys_needing_representation\<close>, with its flag \<^verbatim>\<open>found_required\<close>.
\<close>

fun keys_needing_loop :: "(string \<times> VersionPart) list \<Rightarrow> bool \<Rightarrow> string set \<Rightarrow> string set" where
  "keys_needing_loop [] found_required keys = keys"
| "keys_needing_loop ((k, v) # items) found_required keys =
     (if \<not> VersionPart_is_optional v then keys_needing_loop items True (insert k keys)
      else if \<not> found_required then keys_needing_loop items found_required (insert k keys)
      else keys_needing_loop items found_required keys)"

definition keys_needing_representation :: "Version \<Rightarrow> string set" where
  "keys_needing_representation self = keys_needing_loop (self_parsed self) False {}"

definition required_by_format :: "serialize_format \<Rightarrow> string option set" where
  "required_by_format serialize_format = set (labels_for_format serialize_format)"

text \<open>
  \<^verbatim>\<open>_serialize\<close>. The handler of the KeyError of \<^verbatim>\<open>format\<close> first asserts that the
  exception has the attribute \<^verbatim>\<open>message\<close> and then raises the KeyError "Did not find
  key". The test \<^verbatim>\<open>keys_needing_representation > required_by_format\<close> on Python sets
  is the proper superset: every element of the right set is in the left one and the sets
  differ.
\<close>

definition Version__serialize ::
  "python \<Rightarrow> serialize_format \<Rightarrow> bool \<Rightarrow> Version \<Rightarrow> (error + string) \<times> Version" where
  "Version__serialize py serialize_format raise_if_incomplete self =
     (let values = serialize_values self
      in case str_format serialize_format values of
           Inl k \<Rightarrow>
             if exceptions_have_message py
             then (Inl (KeyError (Did_not_find_key k)), self)
             else (Inl AssertionError, self)
         | Inr serialized \<Rightarrow>
             if raise_if_incomplete \<and>
                required_by_format serialize_format \<subset> Some ` keys_needing_representation self
             then (Inl IncompleteVersionRepresenationException, self)
             else (Inr serialized, self))"

text \<open>
  \<^verbatim>\<open>not chosen\<close> holds for \<^verbatim>\<open>None\<close> and for the empty format string, the one
  whose parse has no field name and no literal text.
\<close>

definition is_empty_format :: "serialize_format \<Rightarrow> bool" where
  "is_empty_format serialize_format =
     list_all (\<lambda>(literal_text, field_name). literal_text = [] \<and> field_name = None) serialize_format"

fun not_chosen :: "serialize_format option \<Rightarrow> bool" where
  "not_chosen None = True"
| "not_chosen (Some serialize_format) = is_empty_format serialize_format"

text \<open>
  The loop of \<^verbatim>\<open>_choose_serialize_format\<close> with its three branches. Both handlers
  start with \<^verbatim>\<open>warnings.warn(e.message)\<close>, which raises AttributeError when the
  exception has no attribute \<^verbatim>\<open>message\<close>; an exception that no handler catches
  leaves the loop.
\<close>

fun choose_loop ::
  "python \<Rightarrow> serialize_format list \<Rightarrow> serialize_format option \<Rightarrow> Version \<Rightarrow>
   (error + serialize_format option) \<times> Version" where
  "choose_loop py [] chosen self = (Inr chosen, self)"
| "choose_loop py (serialize_format # formats) chosen self =
     (case Version__serialize py serialize_format True self of
        (Inr _, self') \<Rightarrow> choose_loop py formats (Some serialize_format) self'
      | (Inl IncompleteVersionRepresenationException, self') \<Rightarrow>
          if exceptions_have_message py
          then choose_loop py formats
                 (if not_chosen chosen then Some serialize_format else chosen) self'
          else (Inl AttributeError, self')
      | (Inl (KeyError _), self') \<Rightarrow>
          if exceptions_have_message py
          then choose_loop py formats chosen self'
          else (Inl AttributeError, self')
      | (Inl e, self') \<Rightarrow> (Inl e, self'))"

definition Version__choose_serialize_format ::
  "python \<Rightarrow> Version \<Rightarrow> (error + serialize_format) \<times> Version" where
  "Version__choose_serialize_format py self =
     (case choose_loop py (self_serialize_formats self) None self of
        (Inl e, self') \<Rightarrow> (Inl e, self')
      | (Inr chosen, self') \<Rightarrow>
          if not_chosen chosen
          then (Inl (KeyError Did_not_find_suitable_serialization_format), self')
          else (Inr (the chosen), self'))"

definition Version_serialize :: "python \<Rightarrow> Version \<Rightarrow> (error + string) \<times> Version" where
  "Version_serialize py self =
     (case Version__choose_serialize_format py self of
        (Inl e, self') \<Rightarrow> (Inl e, self')
      | (Inr chosen, self') \<Rightarrow> Version__serialize py chosen False self')"

text \<open>
  The loop of \<^verbatim>\<open>bump\<close> over the labels of \<^verbatim>\<open>order()\<close>, with its flag
  \<^verbatim>\<open>bumped\<close>. A label \<open>None\<close> is no key of \<^verbatim>\<open>_parsed\<close>. An exception of
  \<^verbatim>\<open>VersionPart.bump\<close> leaves the loop with the parts as they are then.
\<close>

fun bump_loop ::
  "string option list \<Rightarrow> string \<Rightarrow> bool \<Rightarrow> (string \<times> VersionPart) list \<Rightarrow>
   (error + unit) \<times> (string \<times> VersionPart) list" where
  "bump_loop [] part_name bumped parsed = (Inr (), parsed)"
| "bump_loop (None # labels) part_name bumped parsed = bump_loop labels part_name bumped parsed"
| "bump_loop (Some label # labels) part_name bumped parsed =
     (case map_of parsed label of
        None \<Rightarrow> bump_loop labels part_name bumped parsed
      | Some part \<Rightarrow>
          if label = part_name then
            (case VersionPart_bump part of
               Inl e \<Rightarrow> (Inl e, parsed)
             | Inr part' \<Rightarrow> bump_loop labels part_name True (AList.update part_name part' parsed))
          else if bumped then
            bump_loop labels part_name bumped (AList.update label (VersionPart_zero part) parsed)
          else bump_loop labels part_name bumped parsed)"

definition Version_bump :: "string \<Rightarrow> Version \<Rightarrow> (error + unit) \<times> Version" where
  "Version_bump part_name self =
     (case Version_order self of
        Inl e \<Rightarrow> (Inl e, self)
      | Inr labels \<Rightarrow>
          (case bump_loop labels part_name False (self_parsed self) of
             (r, parsed) \<Rightarrow> (r, self\<lparr>self_parsed := parsed\<rparr>)))"

section \<open>Patterns, format strings and versions used as examples\<close>

text \<open>
  The default pattern \<^verbatim>\<open>(?P<major>\d+)\.(?P<minor>\d+)\.(?P<patch>\d+)\<close>. At one
  position it matches when a run of digits, a dot, a run of digits, a dot and a run of
  digits follow, each run taken whole; \<open>three_numbers_here\<close> gives the three runs and
  the text after the match. The search tries the positions from the left. The search
  functions of this section list the groups in the order of the pattern.
\<close>

definition three_numbers_here :: "string \<Rightarrow> (string \<times> string \<times> string \<times> string) option" where
  "three_numbers_here s =
     (let major = takeWhile is_digit s; s1 = dropWhile is_digit s
      in if major = [] then None
         else case s1 of
                [] \<Rightarrow> None
              | c1 # s2 \<Rightarrow>
                  let minor = takeWhile is_digit s2; s3 = dropWhile is_digit s2
                  in if c1 \<noteq> CHR ''.'' \<or> minor = [] then None
                     else case s3 of
                            [] \<Rightarrow> None
                          | c2 # s4 \<Rightarrow>
                              let patch = takeWhile is_digit s4
                              in if c2 \<noteq> CHR ''.'' \<or> patch = [] then None
                                 else Some (major, minor, patch, dropWhile is_digit s4))"

fun default_parse_regex :: "string \<Rightarrow> (string \<times> string option) list option" where
  "default_parse_regex [] = None"
| "default_parse_regex (c # s) =
     (case three_numbers_here (c # s) of
        Some (major, minor, patch, _) \<Rightarrow>
          Some [(''major'', Some major), (''minor'', Some minor), (''patch'', Some patch)]
      | None \<Rightarrow> default_parse_regex s)"

text \<open>
  The search function of the pattern
  \<^verbatim>\<open>(?P<major>\d+)\.(?P<minor>\d+)\.(?P<patch>\d+)(-(?P<label>.+))?\<close>: the group
  \<^verbatim>\<open>label\<close> takes part when a hyphen and a character other than the line feed
  follow the third run, and then takes the text up to the next line feed.
\<close>

fun labelled_parse_regex :: "string \<Rightarrow> (string \<times> string option) list option" where
  "labelled_parse_regex [] = None"
| "labelled_parse_regex (c # s) =
     (case three_numbers_here (c # s) of
        Some (major, minor, patch, rest) \<Rightarrow>
          Some [(''major'', Some major), (''minor'', Some minor), (''patch'', Some patch),
                (''label'',
                 (case rest of
                    c1 # c2 # _ \<Rightarrow>
                      if c1 = CHR ''-'' \<and> c2 \<noteq> CHR 0x0A
                      then Some (takeWhile (\<lambda>c. c \<noteq> CHR 0x0A) (tl rest))
                      else None
                  | _ \<Rightarrow> None))]
      | None \<Rightarrow> labelled_parse_regex s)"

text \<open>
  The search function of the pattern \<^verbatim>\<open>(?P<major>\d+)(\.(?P<minor>\d+))?\<close>: the match
  starts at the first digit, and the group \<^verbatim>\<open>minor\<close> takes part only when a dot and
  a digit follow the first run.
\<close>

definition optional_minor_parse_regex :: "string \<Rightarrow> (string \<times> string option) list option" where
  "optional_minor_parse_regex s =
     (let rest = dropWhile (\<lambda>c. \<not> is_digit c) s;
          major = takeWhile is_digit rest;
          s1 = dropWhile is_digit rest
      in if rest = [] then None
         else case s1 of
                c1 # c2 # s2 \<Rightarrow>
                  if c1 = CHR ''.'' \<and> is_digit c2
                  then Some [(''major'', Some major), (''minor'', Some (takeWhile is_digit (c2 # s2)))]
                  else Some [(''major'', Some major), (''minor'', None)]
              | _ \<Rightarrow> Some [(''major'', Some major), (''minor'', None)])"

text \<open>The format strings \<^verbatim>\<open>{major}.{minor}.{patch}\<close>, \<^verbatim>\<open>{major}.{minor}\<close> and \<^verbatim>\<open>{major}\<close>.\<close>

definition format_major_minor_patch :: serialize_format where
  "format_major_minor_patch = [([], Some ''major''), (''.'', Some ''minor''), (''.'', Some ''patch'')]"

definition format_major_minor :: serialize_format where
  "format_major_minor = [([], Some ''major''), (''.'', Some ''minor'')]"

definition format_major :: serialize_format where
  "format_major = [([], Some ''major'')]"

text \<open>
  The format strings \<^verbatim>\<open>{major}.{minor}.{patch}-{label}\<close> and
  \<^verbatim>\<open>{major}.{minor}.{now}\<close>.
\<close>

definition format_with_label :: serialize_format where
  "format_with_label =
     [([], Some ''major''), (''.'', Some ''minor''), (''.'', Some ''patch''), (''-'', Some ''label'')]"

definition format_with_now :: serialize_format where
  "format_with_now = [([], Some ''major''), (''.'', Some ''minor''), (''.'', Some ''now'')]"



text \<open>
  A version object as \<^verbatim>\<open>main\<close> builds it from the default pattern, here with an
  empty context, before \<^verbatim>\<open>parse\<close> is called.
\<close>

definition Version_init ::
  "(string \<Rightarrow> (string \<times> string option) list option) \<Rightarrow> serialize_format list \<Rightarrow>
   (string \<rightharpoonup> string) \<Rightarrow> Version" where
  "Version_init parse_regex serialize_formats context =
     \<lparr>self_parse_regex = parse_regex, self_serialize_formats = serialize_formats,
      self_context = context, self_parsed = []\<rparr>"

text \<open>
  The version objects of the examples: the default pattern with the single format string
  \<^verbatim>\<open>{major}.{minor}.{patch}\<close>, and with the single format string
  \<^verbatim>\<open>{major}.{minor}\<close>.
\<close>

definition default_Version :: Version where
  "default_Version = Version_init default_parse_regex [format_major_minor_patch] Map.empty"

definition two_part_Version :: Version where
  "two_part_Version = Version_init default_parse_regex [format_major_minor] Map.empty"

text \<open>
  The default pattern with the format strings \<^verbatim>\<open>{major}.{minor}.{patch}-{label}\<close>
  and \<^verbatim>\<open>{major}.{minor}.{patch}\<close>; the pattern with a label and the same format
  strings in the other order; the default pattern with the format strings
  \<^verbatim>\<open>{major}.{minor}\<close> and \<^verbatim>\<open>{major}\<close>; and the default pattern with the
  format strings \<^verbatim>\<open>{major}.{minor}.{patch}\<close> and \<^verbatim>\<open>{major}.{minor}.{now}\<close>, in a
  context that has the key \<^verbatim>\<open>now\<close>.
\<close>

definition label_first_Version :: Version where
  "label_first_Version =
     Version_init default_parse_regex [format_with_label, format_major_minor_patch] Map.empty"

definition labelled_Version :: Version where
  "labelled_Version =
     Version_init labelled_parse_regex [format_major_minor_patch, format_with_label] Map.empty"

definition short_formats_Version :: Version where
  "short_formats_Version =
     Version_init default_parse_regex [format_major_minor, format_major] Map.empty"

definition now_Version :: Version where
  "now_Version =
     Version_init default_parse_regex [format_major_minor_patch, format_with_now]
       [''now'' \<mapsto> ''2013-04-01'']"



definition optional_minor_Version :: Version where
  "optional_minor_Version =
     Version_init optional_minor_parse_regex [format_major_minor, format_major] Map.empty"

section \<open>Notions the statements use\<close>

text \<open>
  The parts after the walk of \<^verbatim>\<open>bump\<close> has set to "0" every part that has one of
  \<open>labels\<close> as its name.
\<close>

definition zero_after :: "string option list \<Rightarrow> (string \<times> VersionPart) list \<Rightarrow> (string \<times> VersionPart) list" where
  "zero_after labels parsed =
     map (\<lambda>(k, p). if Some k \<in> set labels then (k, VersionPart (Some ''0'')) else (k, p)) parsed"

text \<open>The labels of the first format string that stand after the label \<open>part_name\<close>.\<close>

definition labels_after :: "string \<Rightarrow> string option list \<Rightarrow> string option list" where
  "labels_after part_name labels = drop 1 (dropWhile (\<lambda>l. l \<noteq> Some part_name) labels)"

text \<open>
  The two tests a format string passes or fails in \<^verbatim>\<open>_choose_serialize_format\<close>:
  \<^verbatim>\<open>format\<close> finds every field name, and the test of \<^verbatim>\<open>_serialize\<close> on the two
  sets does not raise.
\<close>

definition substitutes :: "Version \<Rightarrow> serialize_format \<Rightarrow> bool" where
  "substitutes self serialize_format =
     (case str_format serialize_format (serialize_values self) of
        Inl _ \<Rightarrow> False
      | Inr _ \<Rightarrow> True)"

definition rejected_as_incomplete :: "Version \<Rightarrow> serialize_format \<Rightarrow> bool" where
  "rejected_as_incomplete self serialize_format =
     (required_by_format serialize_format \<subset> Some ` keys_needing_representation self)"

definition accepted :: "Version \<Rightarrow> serialize_format \<Rightarrow> bool" where
  "accepted self serialize_format =
     (substitutes self serialize_format \<and> \<not> rejected_as_incomplete self serialize_format)"

text \<open>
  The format string the loop of \<^verbatim>\<open>_choose_serialize_format\<close> ends with in Python 2,
  when it starts with \<open>chosen\<close>: the last accepted one; when there is none, the one it started
  with, or else the first that substitutes.
\<close>

definition selection :: "Version \<Rightarrow> serialize_format list \<Rightarrow> serialize_format option \<Rightarrow> serialize_format option" where
  "selection self formats chosen =
     (case filter (accepted self) formats of
        [] \<Rightarrow> (case chosen of
                 Some c \<Rightarrow> Some c
               | None \<Rightarrow> (case filter (substitutes self) formats of [] \<Rightarrow> None | f # _ \<Rightarrow> Some f))
      | f # fs \<Rightarrow> Some (last (f # fs)))"


section \<open>Properties of VersionPart\<close>

text \<open>
  C7. The effective value of a part whose stored value is empty (or \<open>None\<close>) is "0", and the
  effective value of no part is the empty string; a part is optional exactly when its
  effective value is "0". The part with value "" is optional, the part with value "1"
  is not.
\<close>

theorem VersionPart_value_never_empty:
  "VersionPart_value (VersionPart (Some [])) = ''0''
   \<and> VersionPart_value (VersionPart None) = ''0''
   \<and> VersionPart_value self \<noteq> []
   \<and> VersionPart_is_optional self = (VersionPart_value self = ''0'')
   \<and> VersionPart_is_optional (VersionPart (Some []))
   \<and> \<not> VersionPart_is_optional (VersionPart (Some ''1''))"
  by (simp add: VersionPart_value_def VersionPart_is_optional_def split: option.split)

section \<open>Properties of bump\<close>

lemma update_present_as_map:
  "distinct (map fst xs) \<Longrightarrow> map_of xs k = Some p \<Longrightarrow>
   AList.update k v xs = map (\<lambda>(k', p'). if k' = k then (k', v) else (k', p')) xs"
proof (induction xs)
  case Nil
  then show ?case by simp
next
  case (Cons x xs)
  obtain a b where x: "x = (a, b)" by (cases x)
  show ?case
  proof (cases "a = k")
    case True
    with Cons.prems x have "k \<notin> fst ` set xs" by auto
    then have "map (\<lambda>(k', p'). if k' = k then (k', v) else (k', p')) xs = xs"
      by (induction xs) auto
    with True x show ?thesis by simp
  next
    case False
    with Cons x show ?thesis by simp
  qed
qed

text \<open>The dictionary that \<^verbatim>\<open>parse\<close> fills has every key once.\<close>

lemma distinct_fold_update:
  "distinct (map fst acc) \<Longrightarrow>
   distinct (map fst (fold (\<lambda>(key, v) parsed. AList.update key (VersionPart v) parsed) items acc))"
  by (induction items arbitrary: acc) (auto simp: distinct_update)

lemma distinct_parsed_after_parse:
  "distinct (map fst (self_parsed (Version_parse version_string self)))"
  by (simp add: Version_parse_def distinct_fold_update split: option.split)

text \<open>
  While the flag \<^verbatim>\<open>bumped\<close> is false, the walk changes nothing unless it meets the
  label \<open>part_name\<close> as a key of the parts.
\<close>

lemma bump_loop_no_target:
  "Some part_name \<notin> set labels \<or> map_of parsed part_name = None \<Longrightarrow>
   bump_loop labels part_name False parsed = (Inr (), parsed)"
proof (induction labels)
  case Nil
  then show ?case by simp
next
  case (Cons l labels)
  then show ?case by (cases l) (auto split: option.splits)
qed

text \<open>Once the flag is true, the rest of the walk sets the parts it names to "0".\<close>

lemma bump_loop_zeroes:
  "distinct (map fst parsed) \<Longrightarrow> Some part_name \<notin> set labels \<Longrightarrow>
   bump_loop labels part_name True parsed = (Inr (), zero_after labels parsed)"
proof (induction labels arbitrary: parsed)
  case Nil
  then show ?case by (simp add: zero_after_def)
next
  case (Cons l labels)
  show ?case
  proof (cases l)
    case None
    with Cons show ?thesis by (simp add: zero_after_def)
  next
    case (Some label)
    with Cons.prems have ne: "label \<noteq> part_name" by auto
    show ?thesis
    proof (cases "map_of parsed label")
      case None
      then have "label \<notin> fst ` set parsed" by (simp add: map_of_eq_None_iff)
      then have "zero_after (Some label # labels) parsed = zero_after labels parsed"
        unfolding zero_after_def by (intro map_cong) (auto simp: rev_image_eqI)
      with None Some ne Cons show ?thesis by simp
    next
      case (Some part)
      let ?parsed' = "AList.update label (VersionPart_zero part) parsed"
      have upd: "?parsed' =
          map (\<lambda>(k', p'). if k' = label then (k', VersionPart (Some ''0'')) else (k', p')) parsed"
        using update_present_as_map [OF Cons.prems(1) Some] by (simp add: VersionPart_zero_def)
      have d: "distinct (map fst ?parsed')"
        using Cons.prems(1) by (simp add: distinct_update)
      have "bump_loop labels part_name True ?parsed' = (Inr (), zero_after labels ?parsed')"
        using Cons.IH [OF d] Cons.prems(2) by simp
      moreover have "zero_after labels ?parsed' = zero_after (Some label # labels) parsed"
        unfolding upd zero_after_def by (auto simp: o_def split: prod.splits)
      ultimately show ?thesis using Some \<open>l = Some label\<close> ne by simp
    qed
  qed
qed

text \<open>The whole walk, when the label \<open>part_name\<close> stands once among the labels.\<close>

lemma bump_loop_bumps:
  assumes "distinct (map fst parsed)"
      and "Some part_name \<notin> set before"
      and "Some part_name \<notin> set after"
      and "map_of parsed part_name = Some part"
      and "VersionPart_bump part = Inr part'"
  shows "bump_loop (before @ Some part_name # after) part_name False parsed =
         (Inr (), map (\<lambda>(k, p). if k = part_name then (k, part')
                                  else if Some k \<in> set after then (k, VersionPart (Some ''0''))
                                  else (k, p)) parsed)"
  using assms(2)
proof (induction before)
  case Nil
  let ?parsed' = "AList.update part_name part' parsed"
  have upd: "?parsed' = map (\<lambda>(k', p'). if k' = part_name then (k', part') else (k', p')) parsed"
    using update_present_as_map [OF assms(1) assms(4)] by simp
  have d: "distinct (map fst ?parsed')"
    using assms(1) by (simp add: distinct_update)
  have "bump_loop after part_name True ?parsed' = (Inr (), zero_after after ?parsed')"
    using bump_loop_zeroes [OF d assms(3)] .
  moreover have "zero_after after ?parsed' =
      map (\<lambda>(k, p). if k = part_name then (k, part')
                      else if Some k \<in> set after then (k, VersionPart (Some ''0''))
                      else (k, p)) parsed"
    unfolding upd zero_after_def using assms(3) by (auto simp: o_def split: prod.splits)
  ultimately show ?case using assms(4,5) by simp
next
  case (Cons l before)
  then show ?case by (cases l) (auto split: option.splits)
qed

lemma labels_split_once:
  assumes "count_list labels (Some part_name) = 1"
  shows "\<exists>before. labels = before @ Some part_name # labels_after part_name labels
           \<and> Some part_name \<notin> set before
           \<and> Some part_name \<notin> set (labels_after part_name labels)"
proof -
  from assms have "Some part_name \<in> set labels"
    by (metis count_list_0_iff zero_neq_one)
  then obtain ys zs where split: "labels = ys @ Some part_name # zs" "Some part_name \<notin> set ys"
    by (meson split_list_first)
  have "dropWhile (\<lambda>l. l \<noteq> Some part_name) (ys @ Some part_name # zs) = Some part_name # zs"
    using split(2) by (subst dropWhile_append2) auto
  with split have after: "labels_after part_name labels = zs"
    by (simp add: labels_after_def)
  from assms split have "count_list zs (Some part_name) = 0" by simp
  then have "Some part_name \<notin> set zs" by (simp add: count_list_0_iff)
  with split after show ?thesis by auto
qed

lemma parsed_149:
  "self_parsed (Version_parse ''1.4.9'' default_Version) =
     [(''major'', VersionPart (Some ''1'')), (''minor'', VersionPart (Some ''4'')),
      (''patch'', VersionPart (Some ''9''))]"
  by (simp add: Version_parse_def default_Version_def Version_init_def three_numbers_here_def
      is_digit_def)

lemma parsed_149_two_part:
  "self_parsed (Version_parse ''1.4.9'' two_part_Version) =
     [(''major'', VersionPart (Some ''1'')), (''minor'', VersionPart (Some ''4'')),
      (''patch'', VersionPart (Some ''9''))]"
  by (simp add: Version_parse_def two_part_Version_def Version_init_def three_numbers_here_def
      is_digit_def)

lemma formats_after_parse [simp]:
  "self_serialize_formats (Version_parse version_string self) = self_serialize_formats self"
  by (simp add: Version_parse_def split: option.split)

lemma context_after_parse [simp]:
  "self_context (Version_parse version_string self) = self_context self"
  by (simp add: Version_parse_def split: option.split)

text \<open>
  C3, as the code has it. Let \<open>part_name\<close> be a key of the parsed parts whose part
  \<^verbatim>\<open>VersionPart.bump\<close> can bump, and let it stand exactly once among the labels of the
  first format string. Then bump(part_name) raises nothing, replaces that part by its
  bumped part, sets to "0" every other parsed part whose name is a label after
  \<open>part_name\<close> in the first format string, and leaves every other part as it is: the
  parts named before it only, and the parts the first format string does not name.
\<close>

theorem bump_resets_the_parts_after:
  assumes "self_serialize_formats self = first_format # formats"
      and "distinct (map fst (self_parsed self))"
      and "count_list (labels_for_format first_format) (Some part_name) = 1"
      and "map_of (self_parsed self) part_name = Some part"
      and "VersionPart_bump part = Inr part'"
  shows "Version_bump part_name self =
           (Inr (),
            self\<lparr>self_parsed :=
              map (\<lambda>(k, p).
                     if k = part_name then (k, part')
                     else if Some k \<in> set (labels_after part_name (labels_for_format first_format))
                          then (k, VersionPart (Some ''0''))
                          else (k, p))
                  (self_parsed self)\<rparr>)"
proof -
  let ?labels = "labels_for_format first_format"
  from labels_split_once [OF assms(3)] obtain before where
    split: "?labels = before @ Some part_name # labels_after part_name ?labels"
    and before: "Some part_name \<notin> set before"
    and after: "Some part_name \<notin> set (labels_after part_name ?labels)"
    by blast
  have "bump_loop ?labels part_name False (self_parsed self) =
        bump_loop (before @ Some part_name # labels_after part_name ?labels) part_name False
          (self_parsed self)"
    using split by simp
  also have "\<dots> = (Inr (),
      map (\<lambda>(k, p). if k = part_name then (k, part')
                      else if Some k \<in> set (labels_after part_name ?labels)
                           then (k, VersionPart (Some ''0''))
                           else (k, p)) (self_parsed self))"
    by (rule bump_loop_bumps [OF assms(2) before after assms(4) assms(5)])
  finally show ?thesis
    using assms(1) by (simp add: Version_bump_def Version_order_def)
qed

text \<open>
  The example of C3: the default pattern on "1.4.9" gives major=1, minor=4, patch=9, and
  bumping minor gives major=1, minor=5, patch=0.
\<close>

theorem bump_resets_the_parts_after_witness:
  "self_parsed (Version_parse ''1.4.9'' default_Version) =
     [(''major'', VersionPart (Some ''1'')), (''minor'', VersionPart (Some ''4'')),
      (''patch'', VersionPart (Some ''9''))]
   \<and> fst (Version_bump ''minor'' (Version_parse ''1.4.9'' default_Version)) = Inr ()
   \<and> self_parsed (snd (Version_bump ''minor'' (Version_parse ''1.4.9'' default_Version))) =
     [(''major'', VersionPart (Some ''1'')), (''minor'', VersionPart (Some ''5'')),
      (''patch'', VersionPart (Some ''0''))]"
proof -
  let ?v = "Version_parse ''1.4.9'' default_Version"
  have f: "self_serialize_formats ?v = format_major_minor_patch # []"
    by (simp add: default_Version_def Version_init_def)
  have c: "count_list (labels_for_format format_major_minor_patch) (Some ''minor'') = 1"
    by (simp add: labels_for_format_def format_major_minor_patch_def)
  have m: "map_of (self_parsed ?v) ''minor'' = Some (VersionPart (Some ''4''))"
    by (simp add: parsed_149)
  have b: "VersionPart_bump (VersionPart (Some ''4'')) = Inr (VersionPart (Some ''5''))"
    by code_simp
  have a: "labels_after ''minor'' (labels_for_format format_major_minor_patch) = [Some ''patch'']"
    by (simp add: labels_after_def labels_for_format_def format_major_minor_patch_def)
  show ?thesis
    using bump_resets_the_parts_after [OF f distinct_parsed_after_parse c m b]
    by (simp add: parsed_149 a)
qed

text \<open>
  C3 as it is stated fails: "patch" is a parsed part, the first format string
  \<^verbatim>\<open>{major}.{minor}\<close> does not name it, and bump("patch") bumps nothing.
\<close>

theorem bump_of_parsed_part_counterexample:
  "map_of (self_parsed (Version_parse ''1.4.9'' two_part_Version)) ''patch''
     = Some (VersionPart (Some ''9''))
   \<and> fst (Version_bump ''patch'' (Version_parse ''1.4.9'' two_part_Version)) = Inr ()
   \<and> map_of (self_parsed (snd (Version_bump ''patch'' (Version_parse ''1.4.9'' two_part_Version))))
       ''patch'' = Some (VersionPart (Some ''9''))
   \<and> VersionPart_bump (VersionPart (Some ''9'')) = Inr (VersionPart (Some ''10''))"
proof -
  let ?v = "Version_parse ''1.4.9'' two_part_Version"
  have "bump_loop (labels_for_format format_major_minor) ''patch'' False (self_parsed ?v)
          = (Inr (), self_parsed ?v)"
    by (rule bump_loop_no_target) (simp add: labels_for_format_def format_major_minor_def)
  then have "Version_bump ''patch'' ?v = (Inr (), ?v)"
    by (simp add: Version_bump_def Version_order_def two_part_Version_def Version_init_def)
  moreover have "VersionPart_bump (VersionPart (Some ''9'')) = Inr (VersionPart (Some ''10''))"
    by code_simp
  ultimately show ?thesis by (simp add: parsed_149_two_part)
qed

text \<open>
  C6. When the list of format strings is not empty and \<open>part_name\<close> is no key of the
  parsed parts, bump(part_name) raises nothing and returns the object as it was; the
  parts may be none at all, as they are after a parse that matched nothing.
\<close>

theorem bump_of_unparsed_part_is_noop:
  assumes "self_serialize_formats self \<noteq> []"
      and "part_name \<notin> fst ` set (self_parsed self)"
  shows "Version_bump part_name self = (Inr (), self)"
proof -
  from assms(1) obtain first_format formats
    where f: "self_serialize_formats self = first_format # formats"
    by (cases "self_serialize_formats self") auto
  from assms(2) have "map_of (self_parsed self) part_name = None"
    by (simp add: map_of_eq_None_iff)
  then have "bump_loop (labels_for_format first_format) part_name False (self_parsed self)
               = (Inr (), self_parsed self)"
    by (simp add: bump_loop_no_target)
  with f show ?thesis by (simp add: Version_bump_def Version_order_def)
qed

theorem bump_of_unparsed_part_is_noop_witness:
  "default_parse_regex ''next release'' = None
   \<and> self_parsed (Version_parse ''next release'' default_Version) = []
   \<and> Version_bump ''minor'' (Version_parse ''next release'' default_Version)
       = (Inr (), Version_parse ''next release'' default_Version)"
proof -
  let ?v = "Version_parse ''next release'' default_Version"
  have n: "default_parse_regex ''next release'' = None"
    by (simp add: three_numbers_here_def is_digit_def)
  then have p: "self_parsed ?v = []"
    by (simp add: Version_parse_def default_Version_def Version_init_def)
  have f: "self_serialize_formats ?v \<noteq> []"
    by (simp add: default_Version_def Version_init_def)
  have k: "''minor'' \<notin> fst ` set (self_parsed ?v)"
    using p by simp
  show ?thesis
    using bump_of_unparsed_part_is_noop [OF f k] n p by simp
qed

text \<open>
  C10. When \<open>part_name\<close> is no label of the first format string, bump(part_name) raises
  nothing and returns the object as it was, also when \<open>part_name\<close> is a key of the parsed
  parts.
\<close>

theorem bump_outside_first_format_is_noop:
  assumes "self_serialize_formats self = first_format # formats"
      and "Some part_name \<notin> set (labels_for_format first_format)"
  shows "Version_bump part_name self = (Inr (), self)"
proof -
  from assms(2) have "bump_loop (labels_for_format first_format) part_name False (self_parsed self)
               = (Inr (), self_parsed self)"
    by (simp add: bump_loop_no_target)
  with assms(1) show ?thesis by (simp add: Version_bump_def Version_order_def)
qed

theorem bump_outside_first_format_is_noop_witness:
  "''patch'' \<in> fst ` set (self_parsed (Version_parse ''1.4.9'' two_part_Version))
   \<and> Version_bump ''patch'' (Version_parse ''1.4.9'' two_part_Version)
       = (Inr (), Version_parse ''1.4.9'' two_part_Version)"
proof -
  let ?v = "Version_parse ''1.4.9'' two_part_Version"
  have f: "self_serialize_formats ?v = format_major_minor # []"
    by (simp add: two_part_Version_def Version_init_def)
  have l: "Some ''patch'' \<notin> set (labels_for_format format_major_minor)"
    by (simp add: labels_for_format_def format_major_minor_def)
  show ?thesis
    using bump_outside_first_format_is_noop [OF f l] by (simp add: parsed_149_two_part)
qed

section \<open>Properties of VersionPart.bump\<close>

lemma takeWhile_stops:
  "ys = [] \<or> \<not> P (hd ys) \<Longrightarrow> \<forall>x\<in>set xs. P x \<Longrightarrow> takeWhile P (xs @ ys) = xs"
  by (cases ys) (auto simp: takeWhile_append2)

lemma dropWhile_stops:
  "ys = [] \<or> \<not> P (hd ys) \<Longrightarrow> \<forall>x\<in>set xs. P x \<Longrightarrow> dropWhile P (xs @ ys) = ys"
  by (cases ys) (auto simp: dropWhile_append2)

lemma FIRST_NUMERIC_search_digit_run:
  assumes "\<forall>c\<in>set part_prefix. \<not> is_digit c"
      and "digits \<noteq> []" and "\<forall>c\<in>set digits. is_digit c"
      and "rest = [] \<or> \<not> is_digit (hd rest)"
  shows "FIRST_NUMERIC_search (part_prefix @ digits @ rest) =
           Some (part_prefix, digits, takeWhile (\<lambda>c. c \<noteq> CHR 0x0A) rest)"
proof -
  from assms(2,3) have h: "digits @ rest = [] \<or> \<not> \<not> is_digit (hd (digits @ rest))"
    by (cases digits) auto
  have t: "takeWhile (\<lambda>c. \<not> is_digit c) (part_prefix @ digits @ rest) = part_prefix"
    using takeWhile_stops [of "digits @ rest" "\<lambda>c. \<not> is_digit c" part_prefix] h assms(1) by simp
  have d: "dropWhile (\<lambda>c. \<not> is_digit c) (part_prefix @ digits @ rest) = digits @ rest"
    using dropWhile_stops [of "digits @ rest" "\<lambda>c. \<not> is_digit c" part_prefix] h assms(1) by simp
  have t2: "takeWhile is_digit (digits @ rest) = digits"
    using takeWhile_stops [of rest is_digit digits] assms(3,4) by simp
  have d2: "dropWhile is_digit (digits @ rest) = rest"
    using dropWhile_stops [of rest is_digit digits] assms(3,4) by simp
  show ?thesis
    using assms(2) by (simp add: FIRST_NUMERIC_search_def t d t2 d2)
qed

lemma FIRST_NUMERIC_search_no_digit:
  "\<forall>c\<in>set s. \<not> is_digit c \<Longrightarrow> FIRST_NUMERIC_search s = None"
  by (simp add: FIRST_NUMERIC_search_def)

lemma FIRST_NUMERIC_search_some_digit:
  assumes "\<exists>c\<in>set s. is_digit c"
  shows "\<exists>part_prefix digits rest. s = part_prefix @ digits @ rest
           \<and> (\<forall>c\<in>set part_prefix. \<not> is_digit c) \<and> digits \<noteq> [] \<and> (\<forall>c\<in>set digits. is_digit c)
           \<and> (rest = [] \<or> \<not> is_digit (hd rest))"
proof -
  let ?pre = "takeWhile (\<lambda>c. \<not> is_digit c) s"
  let ?r = "dropWhile (\<lambda>c. \<not> is_digit c) s"
  have 1: "s = ?pre @ takeWhile is_digit ?r @ dropWhile is_digit ?r" by simp
  have 2: "\<forall>c\<in>set ?pre. \<not> is_digit c" by (auto dest: set_takeWhileD)
  from assms have "?r \<noteq> []" by (simp add: dropWhile_eq_Nil_conv)
  then have "is_digit (hd ?r)" using hd_dropWhile [of "\<lambda>c. \<not> is_digit c" s] by simp
  with \<open>?r \<noteq> []\<close> have 3: "takeWhile is_digit ?r \<noteq> []" by (cases ?r) auto
  have 4: "\<forall>c\<in>set (takeWhile is_digit ?r). is_digit c" by (auto dest: set_takeWhileD)
  have 5: "dropWhile is_digit ?r = [] \<or> \<not> is_digit (hd (dropWhile is_digit ?r))"
    using hd_dropWhile [of is_digit ?r] by auto
  from 1 2 3 4 5 show ?thesis by blast
qed

text \<open>
  What \<^verbatim>\<open>VersionPart.bump\<close> does on every value: with a digit in the effective value,
  the first run of digits is replaced by its integer value plus one, the prefix is
  kept, and the suffix is kept up to its first line feed; with no digit the call raises.
\<close>

lemma VersionPart_bump_first_digit_run:
  assumes "VersionPart_value self = part_prefix @ digits @ rest"
      and "\<forall>c\<in>set part_prefix. \<not> is_digit c"
      and "digits \<noteq> []" and "\<forall>c\<in>set digits. is_digit c"
      and "rest = [] \<or> \<not> is_digit (hd rest)"
  shows "VersionPart_bump self =
           Inr (VersionPart (Some (part_prefix @ str_of_nat (int_of_digits digits + 1)
                                     @ takeWhile (\<lambda>c. c \<noteq> CHR 0x0A) rest)))"
  using FIRST_NUMERIC_search_digit_run [OF assms(2-5)] assms(1)
  by (simp add: VersionPart_bump_def)

lemma VersionPart_bump_no_digit:
  "\<forall>c\<in>set (VersionPart_value self). \<not> is_digit c \<Longrightarrow> VersionPart_bump self = Inl AttributeError"
  by (simp add: VersionPart_bump_def FIRST_NUMERIC_search_no_digit)

text \<open>
  The two conversions agree: the decimal digits of a number are digits, and they are read
  back as the number.
\<close>

lemma int_of_digits_snoc:
  "int_of_digits (ds @ [c]) = 10 * int_of_digits ds + (of_char c - 48)"
  by (simp add: int_of_digits_def)

lemma int_of_digits_str_of_nat: "int_of_digits (str_of_nat n) = n"
proof (induction n rule: str_of_nat.induct)
  case (1 n)
  show ?case
  proof (cases "n < 10")
    case True
    then show ?thesis
      by (subst str_of_nat.simps) (simp add: int_of_digits_def)
  next
    case False
    have "n mod 10 < 10" by simp
    then have "(of_char (char_of (48 + n mod 10) :: char) :: nat) = 48 + n mod 10"
      by simp
    with False 1 show ?thesis
      by (subst str_of_nat.simps) (simp add: int_of_digits_snoc)
  qed
qed

lemma str_of_nat_digits: "\<forall>c\<in>set (str_of_nat n). is_digit c"
proof (induction n rule: str_of_nat.induct)
  case (1 n)
  show ?case
  proof (cases "n < 10")
    case True
    then show ?thesis
      by (subst str_of_nat.simps) (simp add: is_digit_def)
  next
    case False
    have "n mod 10 < 10" by simp
    then have "(of_char (char_of (48 + n mod 10) :: char) :: nat) = 48 + n mod 10"
      by simp
    with False 1 show ?thesis
      by (subst str_of_nat.simps) (simp add: is_digit_def)
  qed
qed

text \<open>
  With no line feed after the first run of digits the suffix is kept whole, and the call
  returns exactly when the effective value holds a digit.
\<close>

lemma VersionPart_bump_keeps_suffix_without_line_feed:
  assumes "VersionPart_value self = part_prefix @ digits @ rest"
      and "\<forall>c\<in>set part_prefix. \<not> is_digit c"
      and "digits \<noteq> []" and "\<forall>c\<in>set digits. is_digit c"
      and "rest = [] \<or> \<not> is_digit (hd rest)"
      and "CHR 0x0A \<notin> set rest"
  shows "VersionPart_bump self =
           Inr (VersionPart (Some (part_prefix @ str_of_nat (int_of_digits digits + 1) @ rest)))"
proof -
  from assms(6) have "takeWhile (\<lambda>c. c \<noteq> CHR 0x0A) rest = rest"
    by (simp add: takeWhile_eq_all_conv) blast
  with VersionPart_bump_first_digit_run [OF assms(1-5)] show ?thesis by simp
qed

lemma VersionPart_bump_returns_iff_digit:
  "(\<exists>part. VersionPart_bump self = Inr part) = (\<exists>c\<in>set (VersionPart_value self). is_digit c)"
proof
  assume "\<exists>part. VersionPart_bump self = Inr part"
  then show "\<exists>c\<in>set (VersionPart_value self). is_digit c"
    using VersionPart_bump_no_digit [of self] by (cases "\<forall>c\<in>set (VersionPart_value self). \<not> is_digit c") auto
next
  assume "\<exists>c\<in>set (VersionPart_value self). is_digit c"
  then obtain part_prefix digits rest where
    "VersionPart_value self = part_prefix @ digits @ rest"
    "\<forall>c\<in>set part_prefix. \<not> is_digit c" "digits \<noteq> []" "\<forall>c\<in>set digits. is_digit c"
    "rest = [] \<or> \<not> is_digit (hd rest)"
    using FIRST_NUMERIC_search_some_digit [of "VersionPart_value self"] by blast
  then show "\<exists>part. VersionPart_bump self = Inr part"
    using VersionPart_bump_first_digit_run by blast
qed

lemma VersionPart_bump_examples:
  "VersionPart_bump (VersionPart (Some ''v2beta'')) = Inr (VersionPart (Some ''v3beta''))"
  "VersionPart_bump (VersionPart (Some ''0'')) = Inr (VersionPart (Some ''1''))"
  "VersionPart_bump (VersionPart (Some ''beta'')) = Inl AttributeError"
  by code_simp+

text \<open>
  C5. On the code the claim fails where a line feed follows the first run of digits:
  the suffix is kept up to the line feed only, since \<^verbatim>\<open>.\<close> in \<^verbatim>\<open>FIRST_NUMERIC\<close>
  does not match it. The part with the value "1", line feed, "rc" is bumped to "2" and
  not to "2", line feed, "rc".
\<close>

theorem VersionPart_bump_cuts_suffix_at_line_feed:
  "VersionPart_value (VersionPart (Some (''1'' @ [CHR 0x0A] @ ''rc''))) = ''1'' @ [CHR 0x0A] @ ''rc''
   \<and> VersionPart_bump (VersionPart (Some (''1'' @ [CHR 0x0A] @ ''rc''))) = Inr (VersionPart (Some ''2''))"
  by code_simp

section \<open>Properties of serialize\<close>

lemma Version__serialize_frame:
  "snd (Version__serialize py serialize_format raise_if_incomplete self) = self"
  by (simp add: Version__serialize_def Let_def split: sum.split)

lemma Version__serialize_strict:
  "Version__serialize py serialize_format True self =
     (case str_format serialize_format (serialize_values self) of
        Inl k \<Rightarrow>
          if exceptions_have_message py
          then (Inl (KeyError (Did_not_find_key k)), self)
          else (Inl AssertionError, self)
      | Inr serialized \<Rightarrow>
          if rejected_as_incomplete self serialize_format
          then (Inl IncompleteVersionRepresenationException, self)
          else (Inr serialized, self))"
  by (simp add: Version__serialize_def rejected_as_incomplete_def split: sum.split)

lemma Version__serialize_lenient:
  "Version__serialize py serialize_format False self =
     (case str_format serialize_format (serialize_values self) of
        Inl k \<Rightarrow>
          if exceptions_have_message py
          then (Inl (KeyError (Did_not_find_key k)), self)
          else (Inl AssertionError, self)
      | Inr serialized \<Rightarrow> (Inr serialized, self))"
  by (simp add: Version__serialize_def split: sum.split)

text \<open>One turn of the loop, in Python 2 and in Python 3.\<close>

lemma choose_loop_step:
  "choose_loop Python2 (f # formats) chosen self =
     (if \<not> substitutes self f then choose_loop Python2 formats chosen self
      else if rejected_as_incomplete self f
           then choose_loop Python2 formats (if not_chosen chosen then Some f else chosen) self
           else choose_loop Python2 formats (Some f) self)"
  by (simp add: Version__serialize_strict substitutes_def exceptions_have_message_def
      split: sum.split)

lemma choose_loop_step_Python3:
  "choose_loop Python3 (f # formats) chosen self =
     (if \<not> substitutes self f then (Inl AssertionError, self)
      else if rejected_as_incomplete self f then (Inl AttributeError, self)
      else choose_loop Python3 formats (Some f) self)"
  by (simp add: Version__serialize_strict substitutes_def exceptions_have_message_def
      split: sum.split)

lemma choose_loop_frame: "snd (choose_loop py formats chosen self) = self"
proof (cases py)
  case Python2
  show ?thesis unfolding Python2
    by (induction formats arbitrary: chosen)
       (simp_all add: choose_loop_step del: choose_loop.simps(2))
next
  case Python3
  show ?thesis unfolding Python3
    by (induction formats arbitrary: chosen)
       (simp_all add: choose_loop_step_Python3 del: choose_loop.simps(2))
qed

lemma choose_format_frame: "snd (Version__choose_serialize_format py self) = self"
proof -
  obtain r where "choose_loop py (self_serialize_formats self) None self = (r, self)"
    using choose_loop_frame [of py "self_serialize_formats self" None self]
    by (cases "choose_loop py (self_serialize_formats self) None self") auto
  then show ?thesis
    by (simp add: Version__choose_serialize_format_def split: sum.split)
qed

lemma serialize_values_lookup:
  "serialize_values self k =
     (case map_of (self_parsed self) k of
        Some p \<Rightarrow> Some (Part p)
      | None \<Rightarrow> map_option Str (self_context self k))"
  by (simp add: serialize_values_def map_add_def map_of_map split: option.split)

text \<open>
  C9. \<^verbatim>\<open>serialize\<close>, \<^verbatim>\<open>_choose_serialize_format\<close> and \<^verbatim>\<open>_serialize\<close> return the
  object as it was, whether they raise or not, in Python 2 and in Python 3: the parsed
  parts and the context are the same before and after. The values a format string is
  filled from are a new dictionary, in which a parsed part stands for its name and a
  context entry only for a name that no parsed part has.
\<close>

theorem serialize_leaves_the_object_unchanged:
  "snd (Version_serialize py self) = self
   \<and> snd (Version__choose_serialize_format py self) = self
   \<and> snd (Version__serialize py serialize_format raise_if_incomplete self) = self
   \<and> serialize_values self k =
       (case map_of (self_parsed self) k of
          Some p \<Rightarrow> Some (Part p)
        | None \<Rightarrow> map_option Str (self_context self k))"
proof -
  obtain r where c: "Version__choose_serialize_format py self = (r, self)"
    using choose_format_frame [of py self]
    by (cases "Version__choose_serialize_format py self") auto
  have "snd (Version_serialize py self) = self"
    by (cases r) (simp_all add: Version_serialize_def c Version__serialize_frame)
  then show ?thesis
    by (simp add: choose_format_frame Version__serialize_frame serialize_values_lookup)
qed

text \<open>
  In Python 3 the loop ends with the last format string when every format string is
  accepted; otherwise the first one that is not accepted ends it with an exception:
  AssertionError when it does not substitute, AttributeError when the completeness test
  rejects it.
\<close>

lemma choose_loop_Python3:
  "choose_loop Python3 formats chosen self =
     (case dropWhile (accepted self) formats of
        [] \<Rightarrow> (Inr (if formats = [] then chosen else Some (last formats)), self)
      | f # _ \<Rightarrow> (Inl (if substitutes self f then AttributeError else AssertionError), self))"
proof (induction formats arbitrary: chosen)
  case Nil
  then show ?case by simp
next
  case (Cons f formats)
  show ?case
  proof (cases "accepted self f")
    case True
    then have step: "choose_loop Python3 (f # formats) chosen self
                       = choose_loop Python3 formats (Some f) self"
      by (simp add: choose_loop_step_Python3 accepted_def del: choose_loop.simps(2))
    have d: "dropWhile (accepted self) (f # formats) = dropWhile (accepted self) formats"
      using True by simp
    show ?thesis
      unfolding step d Cons.IH [of "Some f"]
      by (simp split: list.split) (metis dropWhile_eq_Nil_conv list.distinct(1))
  next
    case False
    then show ?thesis
      by (auto simp: choose_loop_step_Python3 accepted_def simp del: choose_loop.simps(2))
  qed
qed


text \<open>In Python 2 the loop ends with the selection.\<close>

lemma choose_loop_selects:
  assumes "\<forall>f\<in>set formats. \<not> is_empty_format f"
      and "\<forall>c. chosen = Some c \<longrightarrow> \<not> is_empty_format c"
  shows "choose_loop Python2 formats chosen self = (Inr (selection self formats chosen), self)"
  using assms
proof (induction formats arbitrary: chosen)
  case Nil
  then show ?case by (simp add: selection_def split: option.split)
next
  case (Cons f formats)
  from Cons.prems have ne: "\<not> is_empty_format f" and rest: "\<forall>f\<in>set formats. \<not> is_empty_format f"
    by auto
  have nc: "not_chosen chosen = (chosen = None)"
    using Cons.prems(2) by (cases chosen) auto
  consider (skip) "\<not> substitutes self f"
    | (fallback) "substitutes self f" "rejected_as_incomplete self f"
    | (take) "substitutes self f" "\<not> rejected_as_incomplete self f"
    by blast
  then show ?case
  proof cases
    case skip
    then have "choose_loop Python2 (f # formats) chosen self = choose_loop Python2 formats chosen self"
      by (simp add: choose_loop_step del: choose_loop.simps(2))
    also have "\<dots> = (Inr (selection self formats chosen), self)"
      using Cons.IH [OF rest Cons.prems(2)] .
    also have "selection self formats chosen = selection self (f # formats) chosen"
      using skip by (simp add: selection_def accepted_def cong: list.case_cong option.case_cong)
    finally show ?thesis .
  next
    case fallback
    let ?chosen' = "if chosen = None then Some f else chosen"
    have c': "\<forall>c. ?chosen' = Some c \<longrightarrow> \<not> is_empty_format c"
      using Cons.prems(2) ne by auto
    have "choose_loop Python2 (f # formats) chosen self = choose_loop Python2 formats ?chosen' self"
      using fallback nc by (simp add: choose_loop_step del: choose_loop.simps(2))
    also have "\<dots> = (Inr (selection self formats ?chosen'), self)"
      using Cons.IH [OF rest c'] .
    also have "selection self formats ?chosen' = selection self (f # formats) chosen"
      using fallback by (cases chosen) (simp_all add: selection_def accepted_def cong: list.case_cong option.case_cong)
    finally show ?thesis .
  next
    case take
    have c': "\<forall>c. Some f = Some c \<longrightarrow> \<not> is_empty_format c"
      using ne by auto
    have "choose_loop Python2 (f # formats) chosen self = choose_loop Python2 formats (Some f) self"
      using take by (simp add: choose_loop_step del: choose_loop.simps(2))
    also have "\<dots> = (Inr (selection self formats (Some f)), self)"
      using Cons.IH [OF rest c'] .
    also have "selection self formats (Some f) = selection self (f # formats) chosen"
      using take by (simp add: selection_def accepted_def split: list.split cong: list.case_cong option.case_cong)
    finally show ?thesis .
  qed
qed



lemma selection_substitutes:
  "selection self formats None = Some f \<Longrightarrow> substitutes self f"
proof -
  assume a: "selection self formats None = Some f"
  show ?thesis
  proof (cases "filter (accepted self) formats")
    case Nil
    with a obtain fs where "filter (substitutes self) formats = f # fs"
      by (auto simp: selection_def split: list.splits)
    then have "f \<in> set (filter (substitutes self) formats)" by simp
    then show ?thesis by simp
  next
    case (Cons g gs)
    with a have "f = last (g # gs)" by (simp add: selection_def)
    then have "f \<in> set (filter (accepted self) formats)"
      using Cons last_in_set [of "g # gs"] by simp
    then show ?thesis by (simp add: accepted_def)
  qed
qed

lemma selection_not_empty:
  "\<forall>f\<in>set formats. \<not> is_empty_format f \<Longrightarrow> selection self formats None = Some f \<Longrightarrow>
   \<not> is_empty_format f"
proof -
  assume ne: "\<forall>f\<in>set formats. \<not> is_empty_format f" and a: "selection self formats None = Some f"
  have "f \<in> set formats"
  proof (cases "filter (accepted self) formats")
    case Nil
    with a obtain fs where "filter (substitutes self) formats = f # fs"
      by (auto simp: selection_def split: list.splits)
    then have "f \<in> set (filter (substitutes self) formats)" by simp
    then show ?thesis by simp
  next
    case (Cons g gs)
    with a have "f = last (g # gs)" by (simp add: selection_def)
    then have "f \<in> set (filter (accepted self) formats)"
      using Cons last_in_set [of "g # gs"] by simp
    then show ?thesis by simp
  qed
  with ne show ?thesis by blast
qed


text \<open>
  C1, as the code has it in Python 2, where the handlers run to their end. For format
  strings none of which is the empty string, \<^verbatim>\<open>_choose_serialize_format\<close> tries every
  one in order and ends with the last one that substitutes and that the completeness
  test does not reject; when there is no such format string, with the first one that
  substitutes (which the test rejected); and when none substitutes it raises the KeyError
  "Did not find suitable serialization format". \<^verbatim>\<open>serialize\<close> renders the format
  string chosen, or raises that error.
\<close>

theorem serialize_uses_last_accepted_format:
  assumes "\<forall>f\<in>set (self_serialize_formats self). \<not> is_empty_format f"
  shows "fst (Version__choose_serialize_format Python2 self) =
           (case filter (accepted self) (self_serialize_formats self) of
              [] \<Rightarrow> (case filter (substitutes self) (self_serialize_formats self) of
                       [] \<Rightarrow> Inl (KeyError Did_not_find_suitable_serialization_format)
                     | f # _ \<Rightarrow> Inr f)
            | f # fs \<Rightarrow> Inr (last (f # fs)))
         \<and> (\<forall>f. fst (Version__choose_serialize_format Python2 self) = Inr f \<longrightarrow>
               (\<exists>s. str_format f (serialize_values self) = Inr s
                    \<and> fst (Version_serialize Python2 self) = Inr s))
         \<and> (\<forall>e. fst (Version__choose_serialize_format Python2 self) = Inl e \<longrightarrow>
               fst (Version_serialize Python2 self) = Inl e)"
proof -
  let ?formats = "self_serialize_formats self"
  let ?sel = "selection self ?formats None"
  have loop: "choose_loop Python2 ?formats None self = (Inr ?sel, self)"
    using choose_loop_selects [OF assms, of None] by simp
  have nc: "not_chosen ?sel = (?sel = None)"
    using selection_not_empty [OF assms] by (cases ?sel) auto
  have chosen: "Version__choose_serialize_format Python2 self =
      (case ?sel of
         None \<Rightarrow> (Inl (KeyError Did_not_find_suitable_serialization_format), self)
       | Some f \<Rightarrow> (Inr f, self))"
    using nc by (cases ?sel) (simp_all add: Version__choose_serialize_format_def loop)
  have 1: "fst (Version__choose_serialize_format Python2 self) =
           (case filter (accepted self) ?formats of
              [] \<Rightarrow> (case filter (substitutes self) ?formats of
                       [] \<Rightarrow> Inl (KeyError Did_not_find_suitable_serialization_format)
                     | f # _ \<Rightarrow> Inr f)
            | f # fs \<Rightarrow> Inr (last (f # fs)))"
    by (simp add: chosen selection_def split: list.split)
  have 2: "\<exists>s. str_format f (serialize_values self) = Inr s \<and> fst (Version_serialize Python2 self) = Inr s"
    if "fst (Version__choose_serialize_format Python2 self) = Inr f" for f
  proof -
    from that have sel: "?sel = Some f"
      by (cases ?sel) (simp_all add: chosen)
    then have "substitutes self f" by (rule selection_substitutes)
    then obtain s where s: "str_format f (serialize_values self) = Inr s"
      by (auto simp: substitutes_def split: sum.splits)
    then have "fst (Version_serialize Python2 self) = Inr s"
      by (simp add: Version_serialize_def chosen sel Version__serialize_lenient)
    with s show ?thesis by blast
  qed
  have 3: "fst (Version_serialize Python2 self) = Inl e"
    if "fst (Version__choose_serialize_format Python2 self) = Inl e" for e
  proof -
    from that have "Version__choose_serialize_format Python2 self = (Inl e, self)"
      by (cases ?sel) (simp_all add: chosen)
    then show ?thesis by (simp add: Version_serialize_def)
  qed
  from 1 2 3 show ?thesis by blast
qed

lemma parsed_150_rc1:
  "self_parsed (Version_parse ''1.5.0-rc1'' labelled_Version) =
     [(''major'', VersionPart (Some ''1'')), (''minor'', VersionPart (Some ''5'')),
      (''patch'', VersionPart (Some ''0'')), (''label'', VersionPart (Some ''rc1''))]"
  by code_simp

text \<open>
  The examples of C1 in Python 2. With the format strings \<^verbatim>\<open>{major}.{minor}.{patch}\<close>
  and \<^verbatim>\<open>{major}.{minor}.{patch}-{label}\<close> in this order and the parsed label "rc1", the
  second one is chosen and "1.5.0-rc1" is rendered. With the format strings in the other
  order and no label parsed, the first one does not substitute and is skipped, the second
  one is chosen and "1.5.0" is rendered.
\<close>

theorem serialize_uses_last_accepted_format_witness:
  "fst (Version__choose_serialize_format Python2 (Version_parse ''1.5.0-rc1'' labelled_Version))
     = Inr format_with_label
   \<and> fst (Version_serialize Python2 (Version_parse ''1.5.0-rc1'' labelled_Version))
     = Inr ''1.5.0-rc1''
   \<and> \<not> substitutes (Version_parse ''1.5.0'' label_first_Version) format_with_label
   \<and> fst (Version__choose_serialize_format Python2 (Version_parse ''1.5.0'' label_first_Version))
     = Inr format_major_minor_patch
   \<and> fst (Version_serialize Python2 (Version_parse ''1.5.0'' label_first_Version)) = Inr ''1.5.0''"
proof -
  let ?v = "Version_parse ''1.5.0-rc1'' labelled_Version"
  let ?w = "Version_parse ''1.5.0'' label_first_Version"
  have f: "self_serialize_formats labelled_Version = [format_major_minor_patch, format_with_label]"
    by (simp add: labelled_Version_def Version_init_def)
  have g: "self_serialize_formats label_first_Version = [format_with_label, format_major_minor_patch]"
    by (simp add: label_first_Version_def Version_init_def)
  have ne: "\<forall>f\<in>set (self_serialize_formats ?v). \<not> is_empty_format f"
    by (simp add: f) code_simp
  have ne': "\<forall>f\<in>set (self_serialize_formats ?w). \<not> is_empty_format f"
    by (simp add: g) code_simp
  have acc: "filter (accepted ?v) [format_major_minor_patch, format_with_label]
               = [format_major_minor_patch, format_with_label]"
    by code_simp
  have acc': "filter (accepted ?w) [format_with_label, format_major_minor_patch]
               = [format_major_minor_patch]"
    by code_simp
  have s: "str_format format_with_label (serialize_values ?v) = Inr ''1.5.0-rc1''"
    by code_simp
  have s': "str_format format_major_minor_patch (serialize_values ?w) = Inr ''1.5.0''"
    by code_simp
  have n: "\<not> substitutes ?w format_with_label"
    by code_simp
  note t = serialize_uses_last_accepted_format [OF ne]
  note t' = serialize_uses_last_accepted_format [OF ne']
  have e: "filter (accepted ?v) (self_serialize_formats ?v)
             = [format_major_minor_patch, format_with_label]"
    using acc by (simp only: formats_after_parse f)
  have e': "filter (accepted ?w) (self_serialize_formats ?w) = [format_major_minor_patch]"
    using acc' by (simp only: formats_after_parse g)
  have c: "fst (Version__choose_serialize_format Python2 ?v) = Inr format_with_label"
    using t [THEN conjunct1] unfolding e by simp
  have c': "fst (Version__choose_serialize_format Python2 ?w) = Inr format_major_minor_patch"
    using t' [THEN conjunct1] unfolding e' by simp
  from c t have "\<exists>s. str_format format_with_label (serialize_values ?v) = Inr s
              \<and> fst (Version_serialize Python2 ?v) = Inr s"
    by blast
  with s have r: "fst (Version_serialize Python2 ?v) = Inr ''1.5.0-rc1''" by auto
  from c' t' have "\<exists>s. str_format format_major_minor_patch (serialize_values ?w) = Inr s
              \<and> fst (Version_serialize Python2 ?w) = Inr s"
    by blast
  with s' have r': "fst (Version_serialize Python2 ?w) = Inr ''1.5.0''" by auto
  from c r n c' r' show ?thesis by simp
qed

text \<open>
  C1 as it is stated fails. With the parts of "1.4.9" and the format strings
  \<^verbatim>\<open>{major}.{minor}\<close> and \<^verbatim>\<open>{major}\<close>, both substitute and both fail the
  completeness test. In Python 2 the format string chosen is the first, not the last that
  substitutes; it failed the completeness test and is not skipped; and "1.4" is rendered.
  In Python 3 the handler of the first rejection raises AttributeError. In neither is
  the last format string that substitutes chosen.
\<close>

theorem serialize_last_substituting_format_counterexample:
  "self_serialize_formats (Version_parse ''1.4.9'' short_formats_Version)
     = [format_major_minor, format_major]
   \<and> filter (substitutes (Version_parse ''1.4.9'' short_formats_Version))
        [format_major_minor, format_major] = [format_major_minor, format_major]
   \<and> rejected_as_incomplete (Version_parse ''1.4.9'' short_formats_Version) format_major_minor
   \<and> rejected_as_incomplete (Version_parse ''1.4.9'' short_formats_Version) format_major
   \<and> fst (Version__choose_serialize_format Python2 (Version_parse ''1.4.9'' short_formats_Version))
        = Inr format_major_minor
   \<and> fst (Version_serialize Python2 (Version_parse ''1.4.9'' short_formats_Version)) = Inr ''1.4''
   \<and> fst (Version__choose_serialize_format Python3 (Version_parse ''1.4.9'' short_formats_Version))
        = Inl AttributeError
   \<and> fst (Version_serialize Python3 (Version_parse ''1.4.9'' short_formats_Version))
        = Inl AttributeError
   \<and> format_major_minor \<noteq> format_major"
  by code_simp

text \<open>
  In Python 3 a format string that does not substitute is not skipped: with the format
  strings \<^verbatim>\<open>{major}.{minor}.{patch}-{label}\<close> and \<^verbatim>\<open>{major}.{minor}.{patch}\<close> and no
  label parsed, the assertion in the handler of \<^verbatim>\<open>_serialize\<close> fails and
  \<^verbatim>\<open>serialize\<close> raises AssertionError.
\<close>

lemma serialize_missing_key_Python3:
  "fst (Version_serialize Python3 (Version_parse ''1.5.0'' label_first_Version)) = Inl AssertionError"
  by code_simp

text \<open>
  In Python 3 \<^verbatim>\<open>_choose_serialize_format\<close> returns a format string only when every
  format string is accepted, and then the last one.
\<close>

lemma choose_serialize_format_Python3:
  "fst (Version__choose_serialize_format Python3 self) = Inr f \<Longrightarrow>
   (\<forall>g\<in>set (self_serialize_formats self). accepted self g)
   \<and> self_serialize_formats self \<noteq> [] \<and> f = last (self_serialize_formats self)"
  by (auto simp: Version__choose_serialize_format_def choose_loop_Python3 dropWhile_eq_Nil_conv
      split: list.splits if_splits)

text \<open>
  The keys needing representation: the names of the parts that are not optional, and
  the names of the optional parts that stand before the first part that is not.
\<close>

lemma keys_needing_loop_char:
  "keys_needing_loop items found_required keys =
     keys \<union> {k. \<exists>v. (k, v) \<in> set items \<and> \<not> VersionPart_is_optional v}
          \<union> (if found_required then {}
              else fst ` set (takeWhile (\<lambda>item. VersionPart_is_optional (snd item)) items))"
  by (induction items found_required keys rule: keys_needing_loop.induct) auto

lemma keys_needing_representation_char:
  "keys_needing_representation self =
     {k. \<exists>v. (k, v) \<in> set (self_parsed self) \<and> \<not> VersionPart_is_optional v}
     \<union> fst ` set (takeWhile (\<lambda>item. VersionPart_is_optional (snd item)) (self_parsed self))"
  by (simp add: keys_needing_representation_def keys_needing_loop_char)

text \<open>
  C2. On the code the claim fails where neither set holds the other. With the parts of
  "1.2.3" the keys needing representation are major, minor and patch; the format string
  \<^verbatim>\<open>{major}.{minor}.{now}\<close> has no placeholder for patch, so the keys are no subset of
  its labels; yet \<^verbatim>\<open>_serialize\<close> with \<^verbatim>\<open>raise_if_incomplete\<close> does not raise, the
  format string is chosen over \<^verbatim>\<open>{major}.{minor}.{patch}\<close> that stands before it, and
  the rendered version has lost the patch. No handler runs, and Python 2 and Python 3
  agree.
\<close>

theorem incomplete_format_not_rejected:
  "keys_needing_representation (Version_parse ''1.2.3'' now_Version)
     = {''major'', ''minor'', ''patch''}
   \<and> required_by_format format_with_now = {Some ''major'', Some ''minor'', Some ''now''}
   \<and> \<not> Some ` keys_needing_representation (Version_parse ''1.2.3'' now_Version)
          \<subseteq> required_by_format format_with_now
   \<and> fst (Version__serialize Python2 format_with_now True (Version_parse ''1.2.3'' now_Version))
        = Inr ''1.2.2013-04-01''
   \<and> fst (Version__choose_serialize_format Python2 (Version_parse ''1.2.3'' now_Version))
        = Inr format_with_now
   \<and> fst (Version_serialize Python2 (Version_parse ''1.2.3'' now_Version)) = Inr ''1.2.2013-04-01''
   \<and> fst (Version__serialize Python3 format_with_now True (Version_parse ''1.2.3'' now_Version))
        = Inr ''1.2.2013-04-01''
   \<and> fst (Version__choose_serialize_format Python3 (Version_parse ''1.2.3'' now_Version))
        = Inr format_with_now
   \<and> fst (Version_serialize Python3 (Version_parse ''1.2.3'' now_Version)) = Inr ''1.2.2013-04-01''"
  by code_simp

section \<open>Properties of parse\<close>

lemma update_absent_appends:
  "k \<notin> fst ` set xs \<Longrightarrow> AList.update k v xs = xs @ [(k, v)]"
  by (induction xs) auto

lemma fold_update_distinct:
  "distinct (map fst acc @ map fst items) \<Longrightarrow>
   fold (\<lambda>(key, v) parsed. AList.update key (VersionPart v) parsed) items acc
     = acc @ map (\<lambda>(key, v). (key, VersionPart v)) items"
proof (induction items arbitrary: acc)
  case Nil
  then show ?case by simp
next
  case (Cons item items)
  obtain key v where item: "item = (key, v)" by (cases item)
  from Cons.prems item have absent: "key \<notin> fst ` set acc" by auto
  from Cons.prems item have d: "distinct (map fst (acc @ [(key, VersionPart v)]) @ map fst items)"
    by auto
  show ?case
    using Cons.IH [OF d] by (simp add: item update_absent_appends [OF absent])
qed

text \<open>
  C4, as the code has it. When the pattern matches, \<^verbatim>\<open>parse\<close> creates exactly one
  VersionPart for every named group of the pattern, under the name of the group, whether
  the group took part in the match or not: the part of a group that took part holds the
  text it captured, the part of a group that took no part holds \<open>None\<close> and has the
  effective value "0".
\<close>

theorem parse_keeps_every_named_group:
  assumes "self_parse_regex self version_string = Some items"
      and "distinct (map fst items)"
  shows "self_parsed (Version_parse version_string self)
           = map (\<lambda>(key, v). (key, VersionPart v)) items
         \<and> (\<forall>key. (key, None) \<in> set items \<longrightarrow>
               map_of (self_parsed (Version_parse version_string self)) key = Some (VersionPart None)
               \<and> VersionPart_value (VersionPart None) = ''0'')"
proof -
  have p: "self_parsed (Version_parse version_string self)
           = map (\<lambda>(key, v). (key, VersionPart v)) items"
    using assms fold_update_distinct [of "[]" items] by (simp add: Version_parse_def)
  have "map_of (map (\<lambda>(key, v). (key, VersionPart v)) items) key = Some (VersionPart None)"
    if "(key, None) \<in> set items" for key
    using that assms(2) by (simp add: map_of_map)
  with p show ?thesis by (simp add: VersionPart_value_def)
qed

theorem parse_keeps_every_named_group_witness:
  "self_parsed (Version_parse ''12.3'' optional_minor_Version)
     = [(''major'', VersionPart (Some ''12'')), (''minor'', VersionPart (Some ''3''))]
   \<and> self_parsed (Version_parse ''12'' optional_minor_Version)
     = [(''major'', VersionPart (Some ''12'')), (''minor'', VersionPart None)]"
proof -
  have r1: "self_parse_regex optional_minor_Version ''12.3''
              = Some [(''major'', Some ''12''), (''minor'', Some ''3'')]"
    by code_simp
  have r2: "self_parse_regex optional_minor_Version ''12''
              = Some [(''major'', Some ''12''), (''minor'', None)]"
    by code_simp
  have d1: "distinct (map fst [(''major'', Some ''12''), (''minor'', Some ''3'')])" by simp
  have d2: "distinct (map fst [(''major'', Some ''12''), (''minor'', None :: string option)])" by simp
  show ?thesis
    using parse_keeps_every_named_group [OF r1 d1] parse_keeps_every_named_group [OF r2 d2]
    by simp
qed

text \<open>
  C4 as it is stated fails: on "12" the group minor of the pattern
  \<^verbatim>\<open>(?P<major>\d+)(\.(?P<minor>\d+))?\<close> takes no part in the match, and minor is a
  key of the parsed parts all the same.
\<close>

theorem parse_absent_group_counterexample:
  "optional_minor_parse_regex ''12'' = Some [(''major'', Some ''12''), (''minor'', None)]
   \<and> map_of (self_parsed (Version_parse ''12'' optional_minor_Version)) ''minor''
       = Some (VersionPart None)
   \<and> ''minor'' \<in> fst ` set (self_parsed (Version_parse ''12'' optional_minor_Version))
   \<and> fst (Version_serialize Python2 (Version_parse ''12'' optional_minor_Version)) = Inr ''12''
   \<and> fst (Version_serialize Python3 (Version_parse ''12'' optional_minor_Version)) = Inr ''12''"
  by code_simp





end
